theory Spec2Isabelle
  imports Complex_Main "HOL-Library.AList"
begin

section \<open>Strings and numbers as the workflow uses them\<close>

text \<open>
  Python strings are modelled as \<open>string\<close>. Python floats are modelled as \<open>real\<close>: a
  finite float is the real number it denotes, arithmetic is exact (the rounding of the one
  subtraction in the fallback rule is not modelled), and the non-finite floats are left out.
\<close>

type_synonym pyfloat = real

definition lower_char :: "char \<Rightarrow> char" where
  "lower_char c =
     (let n = of_char c :: nat
      in if 65 \<le> n \<and> n \<le> 90 then ''abcdefghijklmnopqrstuvwxyz'' ! (n - 65) else c)"

text \<open>\<^verbatim>\<open>str.lower()\<close>, on the ASCII letters; every other character is kept.\<close>

definition lower :: "string \<Rightarrow> string" where
  "lower s = map lower_char s"

fun starts_with :: "string \<Rightarrow> string \<Rightarrow> bool" where
  "starts_with [] hay = True"
| "starts_with (n # ns) [] = False"
| "starts_with (n # ns) (h # hs) = (n = h \<and> starts_with ns hs)"

text \<open>\<^verbatim>\<open>needle in hay\<close> on strings: \<open>needle\<close> occurs in \<open>hay\<close> as a contiguous piece.\<close>

fun str_in :: "string \<Rightarrow> string \<Rightarrow> bool" where
  "str_in needle [] = (needle = [])"
| "str_in needle (h # hs) = (starts_with needle (h # hs) \<or> str_in needle hs)"

text \<open>\<^verbatim>\<open>sep.join(parts)\<close>.\<close>

fun join :: "string \<Rightarrow> string list \<Rightarrow> string" where
  "join sep [] = []"
| "join sep [p] = p"
| "join sep (p # q # ps) = p @ sep @ join sep (q # ps)"

definition digit :: "nat \<Rightarrow> char" where
  "digit n = ''0123456789'' ! (n mod 10)"

function show_nat :: "nat \<Rightarrow> string" where
  "show_nat n = (if n < 10 then [digit n] else show_nat (n div 10) @ [digit (n mod 10)])"
  by pat_completeness auto
termination
  by (relation "measure (\<lambda>n. n)") auto

declare show_nat.simps [simp del]

definition round_half_even :: "real \<Rightarrow> int" where
  "round_half_even q =
     (let f = \<lfloor>q\<rfloor>; d = q - of_int f
      in if d < 1 / 2 then f else if 1 / 2 < d then f + 1 else if even f then f else f + 1)"

text \<open>
  The format specification \<^verbatim>\<open>:.2f\<close>: the value rounded to two decimals (ties to the even
  neighbour), a minus sign for a negative value, at least one digit before the point.
\<close>

definition format_2f :: "pyfloat \<Rightarrow> string" where
  "format_2f x =
     (let n = nat (round_half_even (\<bar>x\<bar> * 100))
      in (if x < 0 then ''-'' else '''') @ show_nat (n div 100) @ ''.'' @
         [digit (n mod 100 div 10), digit (n mod 10)])"


section \<open>Schemas\<close>

record ClaimInfo =
  claim_number :: string
  policy_number :: string
  claimant_name :: string
  date_of_loss :: string
  loss_description :: string
  estimated_repair_cost :: pyfloat
  vehicle_details :: "string option"

record PolicyQueries =
  queries :: "string list"

record PolicyRecommendation =
  policy_section :: string
  recommendation_summary :: string
  deductible :: "pyfloat option"
  settlement_amount :: "pyfloat option"

text \<open>
  \<^verbatim>\<open>ClaimDecision\<close>. Its fields \<^verbatim>\<open>claim_number\<close>, \<^verbatim>\<open>deductible\<close> and \<^verbatim>\<open>notes\<close> carry the prefix
  \<open>decision_\<close>, since the names are taken (by the records above, by a keyword).
\<close>

record ClaimDecision =
  decision_claim_number :: string
  covered :: bool
  decision_deductible :: pyfloat
  recommended_payout :: pyfloat
  decision_notes :: "string option"


section \<open>Parsing a claim file\<close>

text \<open>
  What \<^verbatim>\<open>json.load\<close> can put under a key: \<^verbatim>\<open>None\<close>, a bool, a number, a string, or a
  list or dict (\<open>JOther\<close>: no field of \<^verbatim>\<open>ClaimInfo\<close> accepts one, so its content never
  matters).
\<close>

datatype jvalue = JNull | JBool bool | JNumber pyfloat | JString string | JOther

text \<open>
  What opening and loading the file at a path gives: \<^verbatim>\<open>open\<close> raises
  \<^verbatim>\<open>FileNotFoundError\<close>; \<^verbatim>\<open>open\<close> or \<^verbatim>\<open>json.load\<close> raises anything else; the JSON text
  is not an object; the JSON text is an object.
\<close>

datatype source = NoSuchFile | Unloadable | NotAMapping | Mapping "string \<rightharpoonup> jvalue"

text \<open>
  The world outside the workflow: the files, and the conversion of a string to a float
  that the schema validation applies to a string given for a float field.
\<close>

record env =
  files :: "string \<Rightarrow> source"
  float_of_str :: "string \<Rightarrow> pyfloat option"

datatype reason = missing | string_type | float_type | float_parsing

datatype cause = LoadError | ModelTypeError | ValidationError "(string \<times> reason) list"

text \<open>
  The exceptions a run can end with. \<open>ValueError path cause\<close> is
  \<^verbatim>\<open>ValueError(f"Error parsing claim file {file_path}: {e}")\<close>; \<open>KeyNotFound\<close> is what
  \<^verbatim>\<open>ctx.get\<close> raises for a key that was never set.
\<close>

datatype error = FileNotFoundError string | ValueError string cause | KeyNotFound string

text \<open>\<^verbatim>\<open>data[new] = data.pop(old)\<close>, guarded by \<^verbatim>\<open>if old in data\<close>.\<close>

definition rename_key :: "string \<Rightarrow> string \<Rightarrow> (string \<rightharpoonup> jvalue) \<Rightarrow> (string \<rightharpoonup> jvalue)" where
  "rename_key old new data =
     (case data old of
        None \<Rightarrow> data
      | Some v \<Rightarrow> (data(old := None))(new \<mapsto> v))"

definition convert_legacy :: "(string \<rightharpoonup> jvalue) \<Rightarrow> (string \<rightharpoonup> jvalue)" where
  "convert_legacy data =
     rename_key ''description'' ''loss_description''
       (rename_key ''date_of_incident'' ''date_of_loss''
         (rename_key ''policyholder_name'' ''claimant_name''
           (rename_key ''damage_amount'' ''estimated_repair_cost'' data)))"

text \<open>
  Validation of one field against its annotation: \<^verbatim>\<open>str\<close>, \<^verbatim>\<open>float\<close> (a number, a bool
  or a string that converts), \<^verbatim>\<open>Optional[str] = None\<close>.
\<close>

definition validate_str :: "string \<Rightarrow> (string \<rightharpoonup> jvalue) \<Rightarrow> (string \<times> reason) list + string" where
  "validate_str field data =
     (case data field of
        None \<Rightarrow> Inl [(field, missing)]
      | Some (JString s) \<Rightarrow> Inr s
      | Some _ \<Rightarrow> Inl [(field, string_type)])"

definition validate_float ::
  "env \<Rightarrow> string \<Rightarrow> (string \<rightharpoonup> jvalue) \<Rightarrow> (string \<times> reason) list + pyfloat" where
  "validate_float e field data =
     (case data field of
        None \<Rightarrow> Inl [(field, missing)]
      | Some (JNumber x) \<Rightarrow> Inr x
      | Some (JBool b) \<Rightarrow> Inr (if b then 1 else 0)
      | Some (JString s) \<Rightarrow>
          (case float_of_str e s of
             Some x \<Rightarrow> Inr x
           | None \<Rightarrow> Inl [(field, float_parsing)])
      | Some _ \<Rightarrow> Inl [(field, float_type)])"

definition validate_optional_str ::
  "string \<Rightarrow> (string \<rightharpoonup> jvalue) \<Rightarrow> (string \<times> reason) list + string option" where
  "validate_optional_str field data =
     (case data field of
        None \<Rightarrow> Inr None
      | Some JNull \<Rightarrow> Inr None
      | Some (JString s) \<Rightarrow> Inr (Some s)
      | Some _ \<Rightarrow> Inl [(field, string_type)])"

text \<open>Validation goes through every field and reports all the failures, in field order.\<close>

fun and_field :: "'e list + ('a \<Rightarrow> 'b) \<Rightarrow> 'e list + 'a \<Rightarrow> 'e list + 'b" where
  "and_field (Inr f) (Inr x) = Inr (f x)"
| "and_field (Inr f) (Inl es) = Inl es"
| "and_field (Inl es) (Inr x) = Inl es"
| "and_field (Inl es) (Inl es') = Inl (es @ es')"

definition make_ClaimInfo ::
  "string \<Rightarrow> string \<Rightarrow> string \<Rightarrow> string \<Rightarrow> string \<Rightarrow> pyfloat \<Rightarrow> string option \<Rightarrow> ClaimInfo" where
  "make_ClaimInfo cn pn name dol descr cost vd =
     \<lparr>claim_number = cn, policy_number = pn, claimant_name = name, date_of_loss = dol,
      loss_description = descr, estimated_repair_cost = cost, vehicle_details = vd\<rparr>"

definition model_validate :: "env \<Rightarrow> (string \<rightharpoonup> jvalue) \<Rightarrow> (string \<times> reason) list + ClaimInfo" where
  "model_validate e data =
     and_field (and_field (and_field (and_field (and_field (and_field (and_field
       (Inr make_ClaimInfo)
       (validate_str ''claim_number'' data))
       (validate_str ''policy_number'' data))
       (validate_str ''claimant_name'' data))
       (validate_str ''date_of_loss'' data))
       (validate_str ''loss_description'' data))
       (validate_float e ''estimated_repair_cost'' data))
       (validate_optional_str ''vehicle_details'' data)"

definition parse_claim :: "env \<Rightarrow> string \<Rightarrow> error + ClaimInfo" where
  "parse_claim e file_path =
     (case files e file_path of
        NoSuchFile \<Rightarrow> Inl (FileNotFoundError file_path)
      | Unloadable \<Rightarrow> Inl (ValueError file_path LoadError)
      | NotAMapping \<Rightarrow> Inl (ValueError file_path ModelTypeError)
      | Mapping data \<Rightarrow>
          (case model_validate e (convert_legacy data) of
             Inl es \<Rightarrow> Inl (ValueError file_path (ValidationError es))
           | Inr claim_info \<Rightarrow> Inr claim_info))"


section \<open>The two capabilities\<close>

text \<open>
  A retrieved node: its identifier \<^verbatim>\<open>id_\<close> (here \<open>doc_id\<close>) and the text \<^verbatim>\<open>get_content()\<close> returns.
\<close>

record doc =
  doc_id :: string
  get_content :: string

text \<open>
  A call of a capability returns a value or raises; \<open>Inl msg\<close> is the exception, with its
  message. The retriever may offer \<^verbatim>\<open>aretrieve(query)\<close>, and
  \<^verbatim>\<open>retrieve(query, filters=...)\<close>, whose filters are key and value pairs (none in a plain
  call). The reasoner is \<^verbatim>\<open>astructured_predict\<close>, once for each schema and prompt the
  workflow asks for: \<^verbatim>\<open>PolicyQueries\<close> from the claim, \<^verbatim>\<open>PolicyRecommendation\<close> from the
  claim and the policy text.
\<close>

record retriever =
  aretrieve :: "(string \<Rightarrow> string + doc list) option"
  retrieve :: "(string \<Rightarrow> (string \<times> string) list \<Rightarrow> string + doc list) option"

record reasoner =
  predict_queries :: "ClaimInfo \<Rightarrow> string + PolicyQueries"
  predict_recommendation :: "ClaimInfo \<Rightarrow> string \<Rightarrow> string + PolicyRecommendation"

definition get_declarations_docs :: "retriever \<Rightarrow> string \<Rightarrow> nat \<Rightarrow> doc list" where
  "get_declarations_docs policy_retriever pn top_k =
     (case retrieve policy_retriever of
        Some f \<Rightarrow>
          (case f (''declarations page for '' @ pn) [(''policy_number'', pn)] of
             Inr docs \<Rightarrow> take top_k docs
           | Inl e \<Rightarrow> [])
      | None \<Rightarrow> [])"


section \<open>The workflow\<close>

text \<open>
  The object after \<^verbatim>\<open>__init__\<close>: \<^verbatim>\<open>self.policy_retriever\<close>, \<^verbatim>\<open>self.llm\<close> and
  \<^verbatim>\<open>self._verbose\<close>.
\<close>

record workflow =
  policy_retriever :: "retriever option"
  llm :: "reasoner option"
  verbose :: bool

text \<open>
  A \<^verbatim>\<open>LogEvent\<close>, by the message template it is built from and the values put into the
  template; \<^verbatim>\<open>delta\<close> is never set.
\<close>

datatype LogEvent =
    Loading_Claim_Info
  | Loaded_claim string
  | Generating_Policy_Queries
  | LLM_query_generation_failed string
  | Generated_queries nat
  | Retrieving_policy_sections
  | Query string
  | Policy_retrieval_failed string
  | Retrieved_characters nat
  | Generating_Policy_Recommendation
  | LLM_recommendation_failed string
  | Recommendation PolicyRecommendation
  | Finalizing_Decision
  | Final_Decision bool pyfloat
  | Decision ClaimDecision

text \<open>
  The run's context: the keys \<^verbatim>\<open>"claim_info"\<close> and \<^verbatim>\<open>"policy_text"\<close>, and the stream of
  events written so far.
\<close>

record Context =
  ctx_claim_info :: "ClaimInfo option"
  ctx_policy_text :: "string option"
  ctx_stream :: "LogEvent list"

definition new_context :: Context where
  "new_context = \<lparr>ctx_claim_info = None, ctx_policy_text = None, ctx_stream = []\<rparr>"

text \<open>\<^verbatim>\<open>if self._verbose: ctx.write_event_to_stream(LogEvent(msg=...))\<close>.\<close>

definition write_event :: "workflow \<Rightarrow> LogEvent \<Rightarrow> Context \<Rightarrow> Context" where
  "write_event w ev ctx = (if verbose w then ctx\<lparr>ctx_stream := ctx_stream ctx @ [ev]\<rparr> else ctx)"

definition get_claim_info :: "Context \<Rightarrow> error + ClaimInfo" where
  "get_claim_info ctx =
     (case ctx_claim_info ctx of
        None \<Rightarrow> Inl (KeyNotFound ''claim_info'')
      | Some claim_info \<Rightarrow> Inr claim_info)"

definition load_claim_info :: "workflow \<Rightarrow> env \<Rightarrow> Context \<Rightarrow> string \<Rightarrow> error + Context \<times> ClaimInfo" where
  "load_claim_info w e ctx claim_json_path =
     (let ctx = write_event w Loading_Claim_Info ctx
      in case parse_claim e claim_json_path of
           Inl err \<Rightarrow> Inl err
         | Inr claim_info \<Rightarrow>
             (let ctx = ctx\<lparr>ctx_claim_info := Some claim_info\<rparr>;
                  ctx = write_event w (Loaded_claim (claim_number claim_info)) ctx
              in Inr (ctx, claim_info)))"

definition generate_fallback_queries :: "ClaimInfo \<Rightarrow> PolicyQueries" where
  "generate_fallback_queries claim_info =
     \<lparr>queries =
        [''Coverage conditions for '' @ policy_number claim_info,
         ''Deductible application for collision damage'',
         ''Settlement amount calculation for vehicle damage'',
         ''Exclusions for '' @ lower (loss_description claim_info),
         ''Policy limits and coverage details'']\<rparr>"

definition generate_policy_queries :: "workflow \<Rightarrow> Context \<Rightarrow> ClaimInfo \<Rightarrow> Context \<times> PolicyQueries" where
  "generate_policy_queries w ctx claim_info =
     (let ctx = write_event w Generating_Policy_Queries ctx;
          (ctx, qs) =
            (case llm w of
               Some l \<Rightarrow>
                 (case predict_queries l claim_info of
                    Inr qs \<Rightarrow> (ctx, qs)
                  | Inl e \<Rightarrow>
                      (write_event w (LLM_query_generation_failed e) ctx,
                       generate_fallback_queries claim_info))
             | None \<Rightarrow> (ctx, generate_fallback_queries claim_info));
          ctx = write_event w (Generated_queries (length (queries qs))) ctx
      in (ctx, qs))"

text \<open>
  \<^verbatim>\<open>combined_docs\<close> is a dict, which keeps its keys in the order of their first insertion:
  a list of keys and values, where storing under a key that is there replaces the value in
  place (\<open>AList.update\<close>) and storing under a new key appends.
\<close>

fun store_docs :: "doc list \<Rightarrow> (string \<times> doc) list \<Rightarrow> (string \<times> doc) list" where
  "store_docs [] combined_docs = combined_docs"
| "store_docs (d # ds) combined_docs = store_docs ds (AList.update (doc_id d) d combined_docs)"

definition fetch :: "retriever \<Rightarrow> string \<Rightarrow> string + doc list" where
  "fetch r query =
     (case aretrieve r of
        Some f \<Rightarrow> f query
      | None \<Rightarrow>
          (case retrieve r of
             Some g \<Rightarrow> g query []
           | None \<Rightarrow> Inl ''AttributeError''))"

text \<open>
  The loop over the queries, inside the \<^verbatim>\<open>try\<close>: it ends at the first call that raises,
  with the exception, and what was stored and written until then stays.
\<close>

fun fetch_all ::
  "workflow \<Rightarrow> retriever \<Rightarrow> string list \<Rightarrow> (string \<times> doc) list \<Rightarrow> Context \<Rightarrow>
   (string \<times> doc) list \<times> Context \<times> string option" where
  "fetch_all w r [] combined_docs ctx = (combined_docs, ctx, None)"
| "fetch_all w r (query # qs) combined_docs ctx =
     (let ctx = write_event w (Query query) ctx
      in case fetch r query of
           Inl e \<Rightarrow> (combined_docs, ctx, Some e)
         | Inr docs \<Rightarrow> fetch_all w r qs (store_docs docs combined_docs) ctx)"

definition get_fallback_policy_text :: "ClaimInfo \<Rightarrow> string" where
  "get_fallback_policy_text claim_info =
     join [CHR 0x0A]
       ['''',
        ''CALIFORNIA PERSONAL AUTO POLICY'',
        ''Policy Number: '' @ policy_number claim_info,
        '''',
        ''PART D - COVERAGE FOR DAMAGE TO YOUR AUTO'',
        ''COLLISION COVERAGE'',
        ''We will pay for direct and accidental loss to your covered auto caused by collision with another object or by upset of your covered auto.'',
        '''',
        ''DEDUCTIBLE'',
        ''For each loss, our limit of liability will be reduced by the applicable deductible amount shown in the Declarations.'',
        ''Standard collision deductible: $500'',
        ''Comprehensive deductible: $250'',
        '''',
        ''LIMITS OF LIABILITY'',
        ''Our limit of liability for loss will be the lesser of:'',
        ''1. The actual cash value of the stolen or damaged property; or'',
        ''2. The amount necessary to repair or replace the property.'',
        '''',
        ''EXCLUSIONS'',
        ''We do not provide coverage for:'',
        ''1. Loss to your covered auto which occurs while it is used to carry persons or property for compensation'',
        ''2. Loss due to wear and tear, freezing, mechanical breakdown'',
        ''3. Loss to equipment designed for the reproduction of sound'',
        ''        '']"

definition retrieve_policy_text ::
  "workflow \<Rightarrow> Context \<Rightarrow> PolicyQueries \<Rightarrow> error + Context \<times> string" where
  "retrieve_policy_text w ctx qs =
     (let ctx = write_event w Retrieving_policy_sections ctx
      in case get_claim_info ctx of
           Inl err \<Rightarrow> Inl err
         | Inr claim_info \<Rightarrow>
             (let (combined_docs, ctx) =
                    (case policy_retriever w of
                       None \<Rightarrow> ([], ctx)
                     | Some r \<Rightarrow>
                         (case fetch_all w r (queries qs) [] ctx of
                            (combined_docs, ctx, Some e) \<Rightarrow>
                              (combined_docs, write_event w (Policy_retrieval_failed e) ctx)
                          | (combined_docs, ctx, None) \<Rightarrow>
                              (store_docs (get_declarations_docs r (policy_number claim_info) 1)
                                 combined_docs,
                               ctx)));
                  policy_text =
                    (if combined_docs \<noteq> []
                     then join [CHR 0x0A, CHR 0x0A] (map (get_content \<circ> snd) combined_docs)
                     else get_fallback_policy_text claim_info);
                  ctx = ctx\<lparr>ctx_policy_text := Some policy_text\<rparr>;
                  ctx = write_event w (Retrieved_characters (length policy_text)) ctx
              in Inr (ctx, policy_text)))"

definition generate_fallback_recommendation :: "ClaimInfo \<Rightarrow> string \<Rightarrow> PolicyRecommendation" where
  "generate_fallback_recommendation claim_info policy_text =
     (let covered = estimated_repair_cost claim_info < 15000;
          deductible = 500;
          settlement_amount =
            (if covered then max 0 (estimated_repair_cost claim_info - deductible) else 0);
          summary =
            ''Claim '' @ claim_number claim_info @ '' for $'' @
            format_2f (estimated_repair_cost claim_info) @ '' damage'';
          summary =
            (if covered
             then summary @ '' is covered. Settlement: $'' @ format_2f settlement_amount @
                  '' after $'' @ format_2f deductible @ '' deductible.''
             else summary @ '' exceeds policy limits and is not covered.'')
      in \<lparr>policy_section = ''PART D - COLLISION COVERAGE'',
          recommendation_summary = summary,
          deductible = Some deductible,
          settlement_amount = Some settlement_amount\<rparr>)"

definition generate_recommendation ::
  "workflow \<Rightarrow> Context \<Rightarrow> string \<Rightarrow> error + Context \<times> PolicyRecommendation" where
  "generate_recommendation w ctx policy_text =
     (let ctx = write_event w Generating_Policy_Recommendation ctx
      in case get_claim_info ctx of
           Inl err \<Rightarrow> Inl err
         | Inr claim_info \<Rightarrow>
             (let (ctx, recommendation) =
                    (case llm w of
                       Some l \<Rightarrow>
                         (case predict_recommendation l claim_info policy_text of
                            Inr recommendation \<Rightarrow> (ctx, recommendation)
                          | Inl e \<Rightarrow>
                              (write_event w (LLM_recommendation_failed e) ctx,
                               generate_fallback_recommendation claim_info policy_text))
                     | None \<Rightarrow> (ctx, generate_fallback_recommendation claim_info policy_text));
                  ctx = write_event w (Recommendation recommendation) ctx
              in Inr (ctx, recommendation)))"

definition finalize_decision ::
  "workflow \<Rightarrow> Context \<Rightarrow> PolicyRecommendation \<Rightarrow> error + Context \<times> ClaimDecision" where
  "finalize_decision w ctx rec =
     (let ctx = write_event w Finalizing_Decision ctx
      in case get_claim_info ctx of
           Inl err \<Rightarrow> Inl err
         | Inr claim_info \<Rightarrow>
             (let covered =
                    ((str_in ''covered'' (lower (recommendation_summary rec)) \<and>
                      \<not> str_in ''not covered'' (lower (recommendation_summary rec))) \<or>
                     (case settlement_amount rec of Some s \<Rightarrow> 0 < s | None \<Rightarrow> False));
                  deductible = (case deductible rec of Some d \<Rightarrow> d | None \<Rightarrow> 0);
                  recommended_payout =
                    (case settlement_amount rec of
                       Some s \<Rightarrow> if s \<noteq> 0 then s else 0
                     | None \<Rightarrow> 0);
                  decision =
                    \<lparr>decision_claim_number = claim_number claim_info,
                     covered = covered,
                     decision_deductible = deductible,
                     recommended_payout = recommended_payout,
                     decision_notes = Some (recommendation_summary rec)\<rparr>;
                  ctx = write_event w (Final_Decision covered recommended_payout) ctx
              in Inr (ctx, decision)))"

definition output_result :: "workflow \<Rightarrow> Context \<Rightarrow> ClaimDecision \<Rightarrow> Context \<times> ClaimDecision" where
  "output_result w ctx decision = (write_event w (Decision decision) ctx, decision)"

text \<open>
  \<^verbatim>\<open>run\<close>: the steps in the order their event types chain them, on a fresh context. An
  exception of a step ends the run (\<^verbatim>\<open>run\<close> raises it again); otherwise the result is the
  decision, with the stream of events written.
\<close>

definition run :: "workflow \<Rightarrow> env \<Rightarrow> string \<Rightarrow> error + ClaimDecision \<times> LogEvent list" where
  "run w e claim_json_path =
     (case load_claim_info w e new_context claim_json_path of
        Inl err \<Rightarrow> Inl err
      | Inr (ctx, claim_info) \<Rightarrow>
          (case generate_policy_queries w ctx claim_info of
             (ctx, qs) \<Rightarrow>
               (case retrieve_policy_text w ctx qs of
                  Inl err \<Rightarrow> Inl err
                | Inr (ctx, policy_text) \<Rightarrow>
                    (case generate_recommendation w ctx policy_text of
                       Inl err \<Rightarrow> Inl err
                     | Inr (ctx, recommendation) \<Rightarrow>
                         (case finalize_decision w ctx recommendation of
                            Inl err \<Rightarrow> Inl err
                          | Inr (ctx, decision) \<Rightarrow>
                              (case output_result w ctx decision of
                                 (ctx, result) \<Rightarrow> Inr (result, ctx_stream ctx)))))))"


section \<open>Inputs and notions the properties are stated with\<close>

text \<open>
  The claim of the two scenarios, as the mapping loaded from its file, parametrised by the
  estimated repair cost; the record it parses to; a workflow with neither capability.
\<close>

definition scenario_claim :: "pyfloat \<Rightarrow> string \<rightharpoonup> jvalue" where
  "scenario_claim cost =
     [''claim_number'' \<mapsto> JString ''C-1'',
      ''policy_number'' \<mapsto> JString ''P-1'',
      ''claimant_name'' \<mapsto> JString ''John'',
      ''date_of_loss'' \<mapsto> JString ''2025-06-20'',
      ''loss_description'' \<mapsto> JString ''Collision'',
      ''estimated_repair_cost'' \<mapsto> JNumber cost]"

definition scenario_env :: "pyfloat \<Rightarrow> env" where
  "scenario_env cost =
     \<lparr>files = (\<lambda>p. Mapping (scenario_claim cost)), float_of_str = (\<lambda>s. None)\<rparr>"

definition scenario_info :: "pyfloat \<Rightarrow> ClaimInfo" where
  "scenario_info cost =
     \<lparr>claim_number = ''C-1'', policy_number = ''P-1'', claimant_name = ''John'',
      date_of_loss = ''2025-06-20'', loss_description = ''Collision'',
      estimated_repair_cost = cost, vehicle_details = None\<rparr>"

definition no_capabilities :: "bool \<Rightarrow> workflow" where
  "no_capabilities v = \<lparr>policy_retriever = None, llm = None, verbose = v\<rparr>"

text \<open>
  The rule of the decision finalizer as the specification words it, on the summary as it
  is; the definition from the source is inside \<open>finalize_decision\<close>.
\<close>

definition covered_as_specified :: "PolicyRecommendation \<Rightarrow> bool" where
  "covered_as_specified rec \<longleftrightarrow>
     (str_in ''covered'' (recommendation_summary rec) \<and>
      \<not> str_in ''not covered'' (recommendation_summary rec)) \<or>
     (case settlement_amount rec of Some s \<Rightarrow> 0 < s | None \<Rightarrow> False)"

definition shouting_recommendation :: PolicyRecommendation where
  "shouting_recommendation =
     \<lparr>policy_section = ''PART D'', recommendation_summary = ''COVERED'',
      deductible = None, settlement_amount = None\<rparr>"

definition loaded_context :: "ClaimInfo \<Rightarrow> Context" where
  "loaded_context ci = \<lparr>ctx_claim_info = Some ci, ctx_policy_text = None, ctx_stream = []\<rparr>"

text \<open>
  Two contexts hold the same keys; two workflows have the same capabilities (they may
  differ in \<open>verbose\<close>).
\<close>

definition same_keys :: "Context \<Rightarrow> Context \<Rightarrow> bool" where
  "same_keys ctx ctx' \<longleftrightarrow>
     ctx_claim_info ctx = ctx_claim_info ctx' \<and> ctx_policy_text ctx = ctx_policy_text ctx'"

definition same_capabilities :: "workflow \<Rightarrow> workflow \<Rightarrow> bool" where
  "same_capabilities w w' \<longleftrightarrow> policy_retriever w = policy_retriever w' \<and> llm w = llm w'"


text \<open>
  The table of legacy names and the required string fields, read off \<open>parse_claim\<close> and
  \<open>ClaimInfo\<close>; the errors of a validation result; the invariant the specification gives
  for a claim record; and files to parse: one with blank fields and a negative cost, one
  with legacy names beside the new ones, one without \<open>claim_number\<close>.
\<close>

definition legacy_aliases :: "(string \<times> string) list" where
  "legacy_aliases =
     [(''damage_amount'', ''estimated_repair_cost''),
      (''policyholder_name'', ''claimant_name''),
      (''date_of_incident'', ''date_of_loss''),
      (''description'', ''loss_description'')]"

definition required_str_fields :: "string list" where
  "required_str_fields =
     [''claim_number'', ''policy_number'', ''claimant_name'', ''date_of_loss'',
      ''loss_description'']"

definition errors_of :: "'e list + 'a \<Rightarrow> 'e list" where
  "errors_of r = (case r of Inl es \<Rightarrow> es | Inr x \<Rightarrow> [])"

definition claim_invariant :: "ClaimInfo \<Rightarrow> bool" where
  "claim_invariant ci \<longleftrightarrow>
     claim_number ci \<noteq> [] \<and> policy_number ci \<noteq> [] \<and> claimant_name ci \<noteq> [] \<and>
     date_of_loss ci \<noteq> [] \<and> loss_description ci \<noteq> [] \<and> 0 \<le> estimated_repair_cost ci"

definition blank_claim :: "string \<rightharpoonup> jvalue" where
  "blank_claim =
     [''claim_number'' \<mapsto> JString '''',
      ''policy_number'' \<mapsto> JString '''',
      ''claimant_name'' \<mapsto> JString '''',
      ''date_of_loss'' \<mapsto> JString '''',
      ''loss_description'' \<mapsto> JString '''',
      ''estimated_repair_cost'' \<mapsto> JNumber (- 1)]"

definition blank_info :: ClaimInfo where
  "blank_info =
     \<lparr>claim_number = '''', policy_number = '''', claimant_name = '''', date_of_loss = '''',
      loss_description = '''', estimated_repair_cost = - 1, vehicle_details = None\<rparr>"

definition legacy_claim :: "string \<rightharpoonup> jvalue" where
  "legacy_claim =
     [''claim_number'' \<mapsto> JString ''C-2'',
      ''policy_number'' \<mapsto> JString ''P-2'',
      ''claimant_name'' \<mapsto> JString ''Alice'',
      ''policyholder_name'' \<mapsto> JString ''Bob'',
      ''date_of_incident'' \<mapsto> JString ''2025-01-02'',
      ''description'' \<mapsto> JString ''Hail'',
      ''estimated_repair_cost'' \<mapsto> JNumber 100,
      ''damage_amount'' \<mapsto> JNumber 700]"

definition legacy_info :: ClaimInfo where
  "legacy_info =
     \<lparr>claim_number = ''C-2'', policy_number = ''P-2'', claimant_name = ''Bob'',
      date_of_loss = ''2025-01-02'', loss_description = ''Hail'',
      estimated_repair_cost = 700, vehicle_details = None\<rparr>"

definition test_files :: "string \<Rightarrow> source" where
  "test_files p =
     (if p = ''blank.json'' then Mapping blank_claim
      else if p = ''legacy.json'' then Mapping legacy_claim
      else if p = ''no_number.json'' then Mapping (legacy_claim(''claim_number'' := None))
      else NoSuchFile)"

definition test_env :: env where
  "test_env = \<lparr>files = test_files, float_of_str = (\<lambda>s. None)\<rparr>"






text \<open>
  The elements of a list in the order of their first occurrence. The merge as the
  specification words it: of the documents under one identifier the last one stays, and
  the documents that stay keep the order in which they were retrieved. A retriever that
  answers the query q1 with two documents and any other query with one, whose identifier
  is that of the first; it has no \<^verbatim>\<open>retrieve\<close>, so no declarations document.
\<close>

fun first_seen :: "'a list \<Rightarrow> 'a list" where
  "first_seen [] = []"
| "first_seen (x # xs) = x # first_seen (filter (\<lambda>y. y \<noteq> x) xs)"

fun last_seen_merge :: "doc list \<Rightarrow> doc list" where
  "last_seen_merge [] = []"
| "last_seen_merge (d # ds) =
     (if doc_id d \<in> doc_id ` set ds then last_seen_merge ds else d # last_seen_merge ds)"

definition doc_a1 :: doc where
  "doc_a1 = \<lparr>doc_id = ''a'', get_content = ''A1''\<rparr>"

definition doc_b :: doc where
  "doc_b = \<lparr>doc_id = ''b'', get_content = ''B''\<rparr>"

definition doc_a2 :: doc where
  "doc_a2 = \<lparr>doc_id = ''a'', get_content = ''A2''\<rparr>"

definition two_answers :: "string \<Rightarrow> doc list" where
  "two_answers q = (if q = ''q1'' then [doc_a1, doc_b] else [doc_a2])"

definition two_answer_retriever :: retriever where
  "two_answer_retriever = \<lparr>aretrieve = Some (\<lambda>q. Inr (two_answers q)), retrieve = None\<rparr>"

definition retrieving_workflow :: workflow where
  "retrieving_workflow =
     \<lparr>policy_retriever = Some two_answer_retriever, llm = None, verbose = False\<rparr>"

definition two_queries :: PolicyQueries where
  "two_queries = \<lparr>queries = [''q1'', ''q2'']\<rparr>"


section \<open>Properties\<close>

subsection \<open>Substrings\<close>

text \<open>\<open>str_in\<close> is containment as a contiguous piece.\<close>

lemma starts_with_iff:
  "starts_with needle hay \<longleftrightarrow> (\<exists>rest. hay = needle @ rest)"
  by (induction needle hay rule: starts_with.induct) auto

lemma str_in_iff:
  "str_in needle hay \<longleftrightarrow> (\<exists>before after. hay = before @ needle @ after)"
proof (induction hay)
  case Nil
  then show ?case by auto
next
  case (Cons h hs)
  show ?case
  proof
    assume "str_in needle (h # hs)"
    then consider "starts_with needle (h # hs)" | "str_in needle hs" by auto
    then show "\<exists>before after. h # hs = before @ needle @ after"
    proof cases
      case 1
      then obtain rest where "h # hs = needle @ rest"
        unfolding starts_with_iff by blast
      then have "h # hs = [] @ needle @ rest" by simp
      then show ?thesis by blast
    next
      case 2
      then obtain before after where "hs = before @ needle @ after"
        unfolding Cons.IH by blast
      then have "h # hs = (h # before) @ needle @ after" by simp
      then show ?thesis by blast
    qed
  next
    assume "\<exists>before after. h # hs = before @ needle @ after"
    then obtain before after where e: "h # hs = before @ needle @ after" by blast
    show "str_in needle (h # hs)"
    proof (cases before)
      case Nil
      with e have "starts_with needle (h # hs)"
        unfolding starts_with_iff by auto
      then show ?thesis by simp
    next
      case (Cons b bs)
      with e have "hs = bs @ needle @ after" by simp
      then have "str_in needle hs"
        unfolding Cons.IH by blast
      then show ?thesis by simp
    qed
  qed
qed


subsection \<open>Tracing\<close>

lemma same_keys_write_event:
  "same_keys ctx ctx' \<Longrightarrow> same_keys (write_event w ev ctx) (write_event w' ev' ctx')"
  and same_keys_write_event_left: "same_keys ctx ctx' \<Longrightarrow> same_keys (write_event w ev ctx) ctx'"
  and same_keys_write_event_right: "same_keys ctx ctx' \<Longrightarrow> same_keys ctx (write_event w' ev' ctx')"
  by (simp_all add: same_keys_def write_event_def)

lemma ctx_claim_info_write_event [simp]:
  "ctx_claim_info (write_event w ev ctx) = ctx_claim_info ctx"
  by (simp add: write_event_def)

lemma ctx_policy_text_write_event [simp]:
  "ctx_policy_text (write_event w ev ctx) = ctx_policy_text ctx"
  by (simp add: write_event_def)

lemma get_claim_info_write_event [simp]:
  "get_claim_info (write_event w ev ctx) = get_claim_info ctx"
  by (simp add: get_claim_info_def write_event_def)

lemma same_keys_get_claim_info:
  "same_keys ctx ctx' \<Longrightarrow> get_claim_info ctx = get_claim_info ctx'"
  by (simp add: same_keys_def get_claim_info_def)

lemma load_claim_info_quiet:
  assumes "same_keys ctx ctx'"
  shows "rel_sum (=) (rel_prod same_keys (=))
           (load_claim_info w e ctx p) (load_claim_info w' e ctx' p)"
  using assms
  by (auto simp: load_claim_info_def same_keys_def Let_def split: sum.splits)

lemma generate_policy_queries_quiet:
  assumes "same_capabilities w w'" "same_keys ctx ctx'"
  shows "rel_prod same_keys (=)
           (generate_policy_queries w ctx ci) (generate_policy_queries w' ctx' ci)"
  using assms
  by (auto simp: generate_policy_queries_def same_capabilities_def same_keys_def Let_def
      split: sum.splits option.splits)

lemma fetch_all_quiet:
  assumes "same_keys ctx ctx'"
  shows "(case fetch_all w r qs cd ctx of (cd1, ctx1, x1) \<Rightarrow>
           case fetch_all w' r qs cd ctx' of (cd2, ctx2, x2) \<Rightarrow>
             cd1 = cd2 \<and> same_keys ctx1 ctx2 \<and> x1 = x2)"
  using assms
proof (induction qs arbitrary: cd ctx ctx')
  case Nil
  then show ?case by simp
next
  case (Cons q qs)
  have k: "same_keys (write_event w (Query q) ctx) (write_event w' (Query q) ctx')"
    using Cons.prems by (rule same_keys_write_event)
  show ?case
  proof (cases "fetch r q")
    case (Inl e)
    then show ?thesis using k by simp
  next
    case (Inr docs)
    then show ?thesis using Cons.IH [OF k] by simp
  qed
qed

lemma retrieve_policy_text_quiet:
  assumes "same_capabilities w w'" "same_keys ctx ctx'"
  shows "rel_sum (=) (rel_prod same_keys (=))
           (retrieve_policy_text w ctx qs) (retrieve_policy_text w' ctx' qs)"
proof -
  let ?c = "write_event w Retrieving_policy_sections ctx"
  let ?c' = "write_event w' Retrieving_policy_sections ctx'"
  have k: "same_keys ?c ?c'"
    using assms(2) by (rule same_keys_write_event)
  have r: "policy_retriever w' = policy_retriever w"
    using assms(1) by (simp add: same_capabilities_def)
  show ?thesis
  proof (cases "policy_retriever w")
    case None
    then show ?thesis
      using k r
      by (auto simp: retrieve_policy_text_def same_keys_def get_claim_info_def Let_def
          split: option.splits)
  next
    case (Some rt)
    obtain cd1 x1 y1 where f1: "fetch_all w rt (queries qs) [] ?c = (cd1, x1, y1)"
      by (cases "fetch_all w rt (queries qs) [] ?c") auto
    obtain cd2 x2 y2 where f2: "fetch_all w' rt (queries qs) [] ?c' = (cd2, x2, y2)"
      by (cases "fetch_all w' rt (queries qs) [] ?c'") auto
    from fetch_all_quiet [OF k, where w = w and w' = w' and r = rt and qs = "queries qs" and cd = "[]"]
    have "cd1 = cd2 \<and> same_keys x1 x2 \<and> y1 = y2"
      by (simp add: f1 f2)
    then show ?thesis
      using k r Some f1 f2
      by (auto simp: retrieve_policy_text_def same_keys_def get_claim_info_def Let_def
          split: option.splits)
  qed
qed

lemma generate_recommendation_quiet:
  assumes "same_capabilities w w'" "same_keys ctx ctx'"
  shows "rel_sum (=) (rel_prod same_keys (=))
           (generate_recommendation w ctx t) (generate_recommendation w' ctx' t)"
  using assms
  by (auto simp: generate_recommendation_def same_capabilities_def same_keys_def
      get_claim_info_def Let_def split: sum.splits option.splits)

lemma finalize_decision_quiet:
  assumes "same_keys ctx ctx'"
  shows "rel_sum (=) (rel_prod same_keys (=))
           (finalize_decision w ctx rec) (finalize_decision w' ctx' rec)"
  using assms
  by (auto simp: finalize_decision_def same_keys_def
      get_claim_info_def Let_def split: sum.splits option.splits)

lemma run_quiet:
  assumes "same_capabilities w w'"
  shows "map_sum id fst (run w e p) = map_sum id fst (run w' e p)"
proof -
  have k0: "same_keys new_context new_context"
    by (simp add: same_keys_def)
  note s1 = load_claim_info_quiet [OF k0, of w e p w']
  show ?thesis
  proof (cases "load_claim_info w e new_context p")
    case (Inl err)
    then show ?thesis using s1 by (cases "load_claim_info w' e new_context p") (auto simp: run_def)
  next
    case (Inr a)
    then obtain c1 ci where a: "load_claim_info w e new_context p = Inr (c1, ci)"
      by (cases a) simp
    then obtain c1' where a': "load_claim_info w' e new_context p = Inr (c1', ci)"
      and k1: "same_keys c1 c1'"
      using s1 by (cases "load_claim_info w' e new_context p") auto
    obtain c2 qs where b: "generate_policy_queries w c1 ci = (c2, qs)"
      by (cases "generate_policy_queries w c1 ci")
    then obtain c2' where b': "generate_policy_queries w' c1' ci = (c2', qs)"
      and k2: "same_keys c2 c2'"
      using generate_policy_queries_quiet [OF assms k1, of ci]
      by (cases "generate_policy_queries w' c1' ci") auto
    note s3 = retrieve_policy_text_quiet [OF assms k2, of qs]
    show ?thesis
    proof (cases "retrieve_policy_text w c2 qs")
      case (Inl err)
      then show ?thesis using s3 a a' b b'
        by (cases "retrieve_policy_text w' c2' qs") (auto simp: run_def)
    next
      case (Inr x)
      then obtain c3 t where c: "retrieve_policy_text w c2 qs = Inr (c3, t)"
        by (cases x) simp
      then obtain c3' where c': "retrieve_policy_text w' c2' qs = Inr (c3', t)"
        and k3: "same_keys c3 c3'"
        using s3 by (cases "retrieve_policy_text w' c2' qs") auto
      note s4 = generate_recommendation_quiet [OF assms k3, of t]
      show ?thesis
      proof (cases "generate_recommendation w c3 t")
        case (Inl err)
        then show ?thesis using s4 a a' b b' c c'
          by (cases "generate_recommendation w' c3' t") (auto simp: run_def)
      next
        case (Inr y)
        then obtain c4 rec where d: "generate_recommendation w c3 t = Inr (c4, rec)"
          by (cases y) simp
        then obtain c4' where d': "generate_recommendation w' c3' t = Inr (c4', rec)"
          and k4: "same_keys c4 c4'"
          using s4 by (cases "generate_recommendation w' c3' t") auto
        note s5 = finalize_decision_quiet [OF k4, of w rec w']
        show ?thesis
        proof (cases "finalize_decision w c4 rec")
          case (Inl err)
          then show ?thesis using s5 a a' b b' c c' d d'
            by (cases "finalize_decision w' c4' rec") (auto simp: run_def)
        next
          case (Inr z)
          then obtain c5 dec where f: "finalize_decision w c4 rec = Inr (c5, dec)"
            by (cases z) simp
          then obtain c5' where f': "finalize_decision w' c4' rec = Inr (c5', dec)"
            using s5 by (cases "finalize_decision w' c4' rec") auto
          show ?thesis
            using a a' b b' c c' d d' f f' by (simp add: run_def output_result_def)
        qed
      qed
    qed
  qed
qed

text \<open>
  Claim C9. Whatever the input and the capabilities, the run with tracing on and the run
  with tracing off end the same way: with the same decision, or with the same exception.
\<close>

theorem verbose_does_not_change_the_outcome:
  "map_sum id fst (run (w\<lparr>verbose := True\<rparr>) e p) = map_sum id fst (run (w\<lparr>verbose := False\<rparr>) e p)"
  by (rule run_quiet) (simp add: same_capabilities_def)


subsection \<open>The rule-based path\<close>

lemmas format_2f_eval = format_2f_def round_half_even_def show_nat.simps digit_def Let_def

lemma parse_scenario:
  "parse_claim (scenario_env cost) p = Inr (scenario_info cost)"
  by (simp add: parse_claim_def scenario_env_def scenario_claim_def scenario_info_def
      convert_legacy_def rename_key_def model_validate_def validate_str_def validate_float_def
      validate_optional_str_def make_ClaimInfo_def)

lemma fallback_scenario_A:
  "generate_fallback_recommendation (scenario_info 5000) t =
     \<lparr>policy_section = ''PART D - COLLISION COVERAGE'',
      recommendation_summary =
        ''Claim C-1 for $5000.00 damage is covered. Settlement: $4500.00 after $500.00 deductible.'',
      deductible = Some 500, settlement_amount = Some 4500\<rparr>"
  by (simp add: generate_fallback_recommendation_def scenario_info_def format_2f_eval)

lemma fallback_scenario_B:
  "generate_fallback_recommendation (scenario_info 20000) t =
     \<lparr>policy_section = ''PART D - COLLISION COVERAGE'',
      recommendation_summary =
        ''Claim C-1 for $20000.00 damage exceeds policy limits and is not covered.'',
      deductible = Some 500, settlement_amount = Some 0\<rparr>"
  by (simp add: generate_fallback_recommendation_def scenario_info_def format_2f_eval)

lemma claim_number_scenario_info:
  "claim_number (scenario_info cost) = ''C-1''"
  by (simp add: scenario_info_def)

lemma run_no_capabilities:
  "map_sum id fst (run (no_capabilities v) e p) =
     (case parse_claim e p of
        Inl err \<Rightarrow> Inl err
      | Inr ci \<Rightarrow>
          map_sum id snd (finalize_decision (no_capabilities v) (loaded_context ci)
            (generate_fallback_recommendation ci (get_fallback_policy_text ci))))"
  apply (simp add: run_def load_claim_info_def generate_policy_queries_def retrieve_policy_text_def
      generate_recommendation_def output_result_def no_capabilities_def Let_def new_context_def
      get_claim_info_def write_event_def finalize_decision_def loaded_context_def
      split: sum.splits)
  done

lemma finalize_decision_value:
  assumes "ctx_claim_info ctx = Some ci"
  shows "map_sum id snd (finalize_decision w ctx rec) =
     Inr \<lparr>decision_claim_number = claim_number ci,
          covered =
            ((str_in ''covered'' (lower (recommendation_summary rec)) \<and>
              \<not> str_in ''not covered'' (lower (recommendation_summary rec))) \<or>
             (\<exists>s. settlement_amount rec = Some s \<and> 0 < s)),
          decision_deductible = (case deductible rec of Some d \<Rightarrow> d | None \<Rightarrow> 0),
          recommended_payout = (case settlement_amount rec of Some s \<Rightarrow> s | None \<Rightarrow> 0),
          decision_notes = Some (recommendation_summary rec)\<rparr>"
  using assms
  by (auto simp: finalize_decision_def get_claim_info_def Let_def split: option.splits)

lemma lower_summary_A:
  "lower ''Claim C-1 for $5000.00 damage is covered. Settlement: $4500.00 after $500.00 deductible.'' =
     ''claim c-1 for $5000.00 damage is covered. settlement: $4500.00 after $500.00 deductible.''"
  by (simp add: lower_def lower_char_def)

lemma lower_summary_B:
  "lower ''Claim C-1 for $20000.00 damage exceeds policy limits and is not covered.'' =
     ''claim c-1 for $20000.00 damage exceeds policy limits and is not covered.''"
  by (simp add: lower_def lower_char_def)

lemma ctx_claim_info_loaded_context:
  "ctx_claim_info (loaded_context ci) = Some ci"
  by (simp add: loaded_context_def)

text \<open>
  Claim C1. With neither capability, the claim C-1 of policy P-1 (John, 2025-06-20,
  Collision) with an estimated repair cost of 5000.0 is decided covered, with deductible
  500.0 and payout 4500.0; with a cost of 20000.0 it is decided not covered, with
  deductible 500.0 and payout 0.0.
\<close>

theorem scenarios_A_and_B:
  "map_sum id fst (run (no_capabilities v) (scenario_env 5000) p) =
     Inr \<lparr>decision_claim_number = ''C-1'', covered = True, decision_deductible = 500,
          recommended_payout = 4500,
          decision_notes = Some ''Claim C-1 for $5000.00 damage is covered. Settlement: $4500.00 after $500.00 deductible.''\<rparr> \<and>
   map_sum id fst (run (no_capabilities v) (scenario_env 20000) p) =
     Inr \<lparr>decision_claim_number = ''C-1'', covered = False, decision_deductible = 500,
          recommended_payout = 0,
          decision_notes = Some ''Claim C-1 for $20000.00 damage exceeds policy limits and is not covered.''\<rparr>"
  by (simp add: run_no_capabilities parse_scenario fallback_scenario_A fallback_scenario_B
      finalize_decision_value [OF ctx_claim_info_loaded_context]
      lower_summary_A lower_summary_B claim_number_scenario_info)

lemma format_2f_500: "format_2f 500 = ''500.00''"
  by (simp add: format_2f_eval)

text \<open>
  Claim C2. The fallback recommendation, for every claim and every policy text: the
  summary says covered exactly when the cost is below 15000, the deductible is 500, the
  settlement is the cost less 500 and at least 0 when covered and 0 otherwise, the policy
  section is one constant, and the policy text does not change the result.
\<close>

theorem fallback_recommendation_rule:
  "generate_fallback_recommendation ci t =
     \<lparr>policy_section = ''PART D - COLLISION COVERAGE'',
      recommendation_summary =
        ''Claim '' @ claim_number ci @ '' for $'' @ format_2f (estimated_repair_cost ci) @
        '' damage'' @
        (if estimated_repair_cost ci < 15000
         then '' is covered. Settlement: $'' @
              format_2f (max 0 (estimated_repair_cost ci - 500)) @
              '' after $500.00 deductible.''
         else '' exceeds policy limits and is not covered.''),
      deductible = Some 500,
      settlement_amount =
        Some (if estimated_repair_cost ci < 15000 then max 0 (estimated_repair_cost ci - 500) else 0)\<rparr> \<and>
   generate_fallback_recommendation ci t = generate_fallback_recommendation ci t'"
  by (simp add: generate_fallback_recommendation_def Let_def format_2f_500)

text \<open>
  Claim C3, as stated, fails: the finalizer looks for the two phrases in the lower-cased
  summary, so the summary COVERED with no settlement amount is decided covered, while it
  contains neither phrase as written.
\<close>

theorem finalize_decision_counterexample:
  "map_sum id (covered \<circ> snd)
     (finalize_decision (no_capabilities False) (loaded_context (scenario_info 5000))
        shouting_recommendation) = Inr True \<and>
   \<not> covered_as_specified shouting_recommendation"
  by (simp add: finalize_decision_def loaded_context_def get_claim_info_def write_event_def
      no_capabilities_def shouting_recommendation_def covered_as_specified_def lower_def
      lower_char_def)

text \<open>
  Claim C3, amended. In a context that holds the claim, the finalizer always produces a
  decision: covered when the lower-cased summary contains "covered" and not "not covered",
  or the settlement amount is set and positive; the deductible and the payout are those of
  the recommendation, 0 when unset.
\<close>

theorem finalize_decision_rule:
  assumes "ctx_claim_info ctx = Some ci"
  shows "map_sum id snd (finalize_decision w ctx rec) =
     Inr \<lparr>decision_claim_number = claim_number ci,
          covered =
            ((str_in ''covered'' (lower (recommendation_summary rec)) \<and>
              \<not> str_in ''not covered'' (lower (recommendation_summary rec))) \<or>
             (\<exists>s. settlement_amount rec = Some s \<and> 0 < s)),
          decision_deductible = (case deductible rec of Some d \<Rightarrow> d | None \<Rightarrow> 0),
          recommended_payout = (case settlement_amount rec of Some s \<Rightarrow> s | None \<Rightarrow> 0),
          decision_notes = Some (recommendation_summary rec)\<rparr>"
  using assms by (rule finalize_decision_value)

theorem finalize_decision_rule_witness:
  "ctx_claim_info (loaded_context (scenario_info 5000)) = Some (scenario_info 5000) \<and>
   map_sum id snd
     (finalize_decision (no_capabilities True) (loaded_context (scenario_info 5000))
        shouting_recommendation) =
     Inr \<lparr>decision_claim_number = ''C-1'', covered = True, decision_deductible = 0,
          recommended_payout = 0, decision_notes = Some ''COVERED''\<rparr>"
  using finalize_decision_rule [of "loaded_context (scenario_info 5000)" "scenario_info 5000"
      "no_capabilities True" shouting_recommendation]
  by (simp add: loaded_context_def scenario_info_def shouting_recommendation_def lower_def
      lower_char_def)




subsection \<open>Parsing\<close>

lemmas validate_defs =
  model_validate_def validate_str_def validate_float_def validate_optional_str_def
  make_ClaimInfo_def

lemma rename_key_apply:
  "rename_key old new data k =
     (if data old = None then data k
      else if k = new then data old
      else if k = old then None
      else data k)"
  by (simp add: rename_key_def split: option.splits)

lemma convert_legacy_damage_amount:
  "convert_legacy data ''damage_amount'' = None"
  "convert_legacy data ''estimated_repair_cost'' =
     (case data ''damage_amount'' of Some v \<Rightarrow> Some v | None \<Rightarrow> data ''estimated_repair_cost'')"
  by (cases "data ''damage_amount''"; simp add: convert_legacy_def rename_key_apply)+

lemma convert_legacy_policyholder_name:
  "convert_legacy data ''policyholder_name'' = None"
  "convert_legacy data ''claimant_name'' =
     (case data ''policyholder_name'' of Some v \<Rightarrow> Some v | None \<Rightarrow> data ''claimant_name'')"
  by (cases "data ''policyholder_name''"; simp add: convert_legacy_def rename_key_apply)+

lemma convert_legacy_date_of_incident:
  "convert_legacy data ''date_of_incident'' = None"
  "convert_legacy data ''date_of_loss'' =
     (case data ''date_of_incident'' of Some v \<Rightarrow> Some v | None \<Rightarrow> data ''date_of_loss'')"
  by (cases "data ''date_of_incident''"; simp add: convert_legacy_def rename_key_apply)+

lemma convert_legacy_description:
  "convert_legacy data ''description'' = None"
  "convert_legacy data ''loss_description'' =
     (case data ''description'' of Some v \<Rightarrow> Some v | None \<Rightarrow> data ''loss_description'')"
  by (cases "data ''description''"; simp add: convert_legacy_def rename_key_apply)+

lemmas convert_legacy_aliases =
  convert_legacy_damage_amount convert_legacy_policyholder_name
  convert_legacy_date_of_incident convert_legacy_description

lemma convert_legacy_alias:
  "\<forall>(old, new) \<in> set legacy_aliases.
     convert_legacy data old = None \<and>
     convert_legacy data new = (case data old of Some v \<Rightarrow> Some v | None \<Rightarrow> data new)"
  by (simp add: legacy_aliases_def convert_legacy_aliases)

lemma convert_legacy_claim_number:
  "convert_legacy data ''claim_number'' = data ''claim_number''"
  and convert_legacy_policy_number:
  "convert_legacy data ''policy_number'' = data ''policy_number''"
  and convert_legacy_vehicle_details:
  "convert_legacy data ''vehicle_details'' = data ''vehicle_details''"
  by (simp_all add: convert_legacy_def rename_key_apply)

lemma and_field_Inr_iff:
  "and_field f x = Inr y \<longleftrightarrow> (\<exists>g a. f = Inr g \<and> x = Inr a \<and> y = g a)"
  by (cases f; cases x) auto

lemma errors_of_and_field:
  "errors_of (and_field f x) = errors_of f @ errors_of x"
  by (cases f; cases x) (simp_all add: errors_of_def)

lemma isl_and_field:
  "isl (and_field f x) \<longleftrightarrow> isl f \<or> isl x"
  by (cases f; cases x) simp_all

lemma Inl_errors_of:
  "isl r \<Longrightarrow> r = Inl (errors_of r)"
  by (cases r) (simp_all add: errors_of_def)

lemma errors_of_Inr: "errors_of (Inr x) = []"
  by (simp add: errors_of_def)

lemma model_validate_Inr_iff:
  "model_validate e data = Inr ci \<longleftrightarrow>
     validate_str ''claim_number'' data = Inr (claim_number ci) \<and>
     validate_str ''policy_number'' data = Inr (policy_number ci) \<and>
     validate_str ''claimant_name'' data = Inr (claimant_name ci) \<and>
     validate_str ''date_of_loss'' data = Inr (date_of_loss ci) \<and>
     validate_str ''loss_description'' data = Inr (loss_description ci) \<and>
     validate_float e ''estimated_repair_cost'' data = Inr (estimated_repair_cost ci) \<and>
     validate_optional_str ''vehicle_details'' data = Inr (vehicle_details ci)"
  by (cases ci) (auto simp: model_validate_def and_field_Inr_iff make_ClaimInfo_def)

lemma errors_of_model_validate:
  "errors_of (model_validate e data) =
     errors_of (validate_str ''claim_number'' data) @
     errors_of (validate_str ''policy_number'' data) @
     errors_of (validate_str ''claimant_name'' data) @
     errors_of (validate_str ''date_of_loss'' data) @
     errors_of (validate_str ''loss_description'' data) @
     errors_of (validate_float e ''estimated_repair_cost'' data) @
     errors_of (validate_optional_str ''vehicle_details'' data)"
  by (simp add: model_validate_def errors_of_and_field errors_of_Inr)

lemma isl_model_validate:
  "isl (model_validate e data) \<longleftrightarrow>
     isl (validate_str ''claim_number'' data) \<or>
     isl (validate_str ''policy_number'' data) \<or>
     isl (validate_str ''claimant_name'' data) \<or>
     isl (validate_str ''date_of_loss'' data) \<or>
     isl (validate_str ''loss_description'' data) \<or>
     isl (validate_float e ''estimated_repair_cost'' data) \<or>
     isl (validate_optional_str ''vehicle_details'' data)"
  by (simp add: model_validate_def isl_and_field)

lemma validate_str_Inr_iff:
  "validate_str f data = Inr s \<longleftrightarrow> data f = Some (JString s)"
  by (auto simp: validate_str_def split: option.splits jvalue.splits)

lemma validate_str_errors:
  "errors_of (validate_str f data) =
     (case data f of
        None \<Rightarrow> [(f, missing)]
      | Some (JString s) \<Rightarrow> []
      | Some _ \<Rightarrow> [(f, string_type)])"
  by (simp add: validate_str_def errors_of_def split: option.splits jvalue.splits)

lemma validate_float_Inr_iff:
  "validate_float e f data = Inr x \<longleftrightarrow>
     data f = Some (JNumber x) \<or>
     (\<exists>b. data f = Some (JBool b) \<and> x = (if b then 1 else 0)) \<or>
     (\<exists>s. data f = Some (JString s) \<and> float_of_str e s = Some x)"
  by (auto simp: validate_float_def split: option.splits jvalue.splits)

lemma validate_float_errors:
  "errors_of (validate_float e f data) =
     (case data f of
        None \<Rightarrow> [(f, missing)]
      | Some (JNumber x) \<Rightarrow> []
      | Some (JBool b) \<Rightarrow> []
      | Some (JString s) \<Rightarrow> (case float_of_str e s of Some x \<Rightarrow> [] | None \<Rightarrow> [(f, float_parsing)])
      | Some _ \<Rightarrow> [(f, float_type)])"
  by (simp add: validate_float_def errors_of_def split: option.splits jvalue.splits)

lemma parse_claim_Mapping:
  "files e p = Mapping data \<Longrightarrow>
     parse_claim e p =
       (case model_validate e (convert_legacy data) of
          Inl es \<Rightarrow> Inl (ValueError p (ValidationError es))
        | Inr ci \<Rightarrow> Inr ci)"
  by (simp add: parse_claim_def)

lemma parse_claim_Inr_iff:
  "parse_claim e p = Inr ci \<longleftrightarrow>
     (\<exists>data. files e p = Mapping data \<and> model_validate e (convert_legacy data) = Inr ci)"
  by (auto simp: parse_claim_def split: source.splits sum.splits)

lemma parse_claim_error_of_field:
  assumes "files e p = Mapping data"
    and "(f, r) \<in> set (errors_of (model_validate e (convert_legacy data)))"
  shows "\<exists>es. parse_claim e p = Inl (ValueError p (ValidationError es)) \<and> (f, r) \<in> set es"
proof (cases "model_validate e (convert_legacy data)")
  case (Inl es)
  then show ?thesis
    using assms by (simp add: parse_claim_Mapping errors_of_def)
next
  case (Inr ci)
  then show ?thesis
    using assms by (simp add: errors_of_def)
qed

lemma parse_claim_NotFound_iff:
  "(\<exists>m. parse_claim e p = Inl (FileNotFoundError m)) \<longleftrightarrow> files e p = NoSuchFile"
  by (auto simp: parse_claim_def split: source.splits sum.splits)

lemma str_field_rejected:
  assumes "files e p = Mapping data"
    and "f \<in> set required_str_fields"
    and "\<nexists>s. convert_legacy data f = Some (JString s)"
  shows "\<exists>es r. parse_claim e p = Inl (ValueError p (ValidationError es)) \<and> (f, r) \<in> set es"
proof -
  have "\<exists>r. (f, r) \<in> set (errors_of (validate_str f (convert_legacy data)))"
    using assms(3) by (auto simp: validate_str_errors split: option.splits jvalue.splits)
  then obtain r where "(f, r) \<in> set (errors_of (validate_str f (convert_legacy data)))" ..
  then have "(f, r) \<in> set (errors_of (model_validate e (convert_legacy data)))"
    using assms(2) by (auto simp: errors_of_model_validate required_str_fields_def)
  from parse_claim_error_of_field [OF assms(1) this] show ?thesis by blast
qed

lemma cost_rejected:
  assumes "files e p = Mapping data"
    and "\<nexists>x. validate_float e ''estimated_repair_cost'' (convert_legacy data) = Inr x"
  shows "\<exists>es r. parse_claim e p = Inl (ValueError p (ValidationError es)) \<and>
           (''estimated_repair_cost'', r) \<in> set es"
proof -
  have "\<exists>r. (''estimated_repair_cost'', r) \<in>
          set (errors_of (validate_float e ''estimated_repair_cost'' (convert_legacy data)))"
    using assms(2)
    by (auto simp: validate_float_errors validate_float_Inr_iff split: option.splits jvalue.splits)
  then obtain r where "(''estimated_repair_cost'', r) \<in>
          set (errors_of (validate_float e ''estimated_repair_cost'' (convert_legacy data)))" ..
  then have "(''estimated_repair_cost'', r) \<in> set (errors_of (model_validate e (convert_legacy data)))"
    by (simp add: errors_of_model_validate)
  from parse_claim_error_of_field [OF assms(1) this] show ?thesis by blast
qed

lemma parse_blank: "parse_claim test_env ''blank.json'' = Inr blank_info"
  by (simp add: parse_claim_def test_env_def test_files_def blank_claim_def blank_info_def
      convert_legacy_def rename_key_def validate_defs)

lemma parse_legacy: "parse_claim test_env ''legacy.json'' = Inr legacy_info"
  by (simp add: parse_claim_def test_env_def test_files_def legacy_claim_def legacy_info_def
      convert_legacy_def rename_key_def validate_defs)


lemma validate_optional_str_Inr_iff:
  "validate_optional_str f data = Inr v \<longleftrightarrow>
     (v = None \<and> (data f = None \<or> data f = Some JNull)) \<or>
     (\<exists>s. v = Some s \<and> data f = Some (JString s))"
  by (auto simp: validate_optional_str_def split: option.splits jvalue.splits)

text \<open>
  Claim C4, as stated, fails: the schema annotates the fields \<^verbatim>\<open>str\<close> and \<^verbatim>\<open>float\<close> with
  no further constraint, so a file whose required fields are empty strings and whose cost
  is -1 parses to a record.
\<close>

theorem parse_claim_invariant_counterexample:
  "parse_claim test_env ''blank.json'' = Inr blank_info \<and> \<not> claim_invariant blank_info"
  by (simp add: parse_blank) (simp add: claim_invariant_def blank_info_def)

text \<open>
  Claim C4, amended. \<open>parse_claim\<close> returns a record exactly when the file holds a mapping in
  which, after renaming, each of the five required fields is a string (any string), the
  cost is a number, a bool or a string that converts (any value), and the vehicle details
  are absent, null or a string; the record holds these values. Every other input is
  rejected.
\<close>

theorem parse_claim_result:
  "parse_claim e p = Inr ci \<longleftrightarrow>
     (\<exists>data. files e p = Mapping data \<and>
        convert_legacy data ''claim_number'' = Some (JString (claim_number ci)) \<and>
        convert_legacy data ''policy_number'' = Some (JString (policy_number ci)) \<and>
        convert_legacy data ''claimant_name'' = Some (JString (claimant_name ci)) \<and>
        convert_legacy data ''date_of_loss'' = Some (JString (date_of_loss ci)) \<and>
        convert_legacy data ''loss_description'' = Some (JString (loss_description ci)) \<and>
        (convert_legacy data ''estimated_repair_cost'' = Some (JNumber (estimated_repair_cost ci)) \<or>
         (\<exists>b. convert_legacy data ''estimated_repair_cost'' = Some (JBool b) \<and>
              estimated_repair_cost ci = (if b then 1 else 0)) \<or>
         (\<exists>s. convert_legacy data ''estimated_repair_cost'' = Some (JString s) \<and>
              float_of_str e s = Some (estimated_repair_cost ci))) \<and>
        ((vehicle_details ci = None \<and>
          (convert_legacy data ''vehicle_details'' = None \<or>
           convert_legacy data ''vehicle_details'' = Some JNull)) \<or>
         (\<exists>s. vehicle_details ci = Some s \<and>
              convert_legacy data ''vehicle_details'' = Some (JString s))))"
  unfolding parse_claim_Inr_iff model_validate_Inr_iff validate_str_Inr_iff
    validate_float_Inr_iff validate_optional_str_Inr_iff ..

theorem parse_claim_result_witness:
  "parse_claim test_env ''blank.json'' = Inr blank_info \<and>
   files test_env ''blank.json'' = Mapping blank_claim \<and>
   convert_legacy blank_claim ''claim_number'' = Some (JString []) \<and>
   convert_legacy blank_claim ''estimated_repair_cost'' = Some (JNumber (- 1))"
proof -
  have "files test_env ''blank.json'' = Mapping blank_claim"
    by (simp add: test_env_def test_files_def)
  moreover have "blank_claim ''damage_amount'' = None"
    by (simp add: blank_claim_def)
  moreover have "blank_claim ''estimated_repair_cost'' = Some (JNumber (- 1))"
    by (simp add: blank_claim_def)
  moreover have "blank_claim ''claim_number'' = Some (JString [])"
    by (simp add: blank_claim_def)
  moreover have "parse_claim test_env ''blank.json'' = Inr blank_info"
    using parse_claim_result [of test_env "''blank.json''" blank_info]
    by (simp add: test_env_def test_files_def blank_claim_def blank_info_def
        convert_legacy_def rename_key_def)
  ultimately show ?thesis
    by (simp add: convert_legacy_claim_number convert_legacy_damage_amount)
qed

text \<open>
  Claim C5. \<open>parse_claim\<close> fails with \<open>FileNotFoundError\<close> exactly when the file does not
  exist. On a mapping it validates the renamed mapping, in which each legacy key is gone
  and its value stands under the new name; when a required field is then missing or of
  the wrong type it fails with a \<open>ValueError\<close> whose validation errors name the field, and
  returns no record; a mapping without \<open>claim_number\<close> fails so, naming \<open>claim_number\<close> as
  missing.
\<close>

theorem parse_claim_failures:
  "((\<exists>m. parse_claim e p = Inl (FileNotFoundError m)) \<longleftrightarrow> files e p = NoSuchFile) \<and>
   (files e p = NoSuchFile \<longrightarrow> parse_claim e p = Inl (FileNotFoundError p)) \<and>
   (\<forall>data. files e p = Mapping data \<longrightarrow>
      parse_claim e p =
        (case model_validate e (convert_legacy data) of
           Inl es \<Rightarrow> Inl (ValueError p (ValidationError es))
         | Inr ci \<Rightarrow> Inr ci) \<and>
      (\<forall>(old, new) \<in> set legacy_aliases.
         convert_legacy data old = None \<and>
         convert_legacy data new = (case data old of Some v \<Rightarrow> Some v | None \<Rightarrow> data new)) \<and>
      (\<forall>f \<in> set required_str_fields.
         (\<nexists>s. convert_legacy data f = Some (JString s)) \<longrightarrow>
         (\<exists>es r. parse_claim e p = Inl (ValueError p (ValidationError es)) \<and>
            (f, r) \<in> set es)) \<and>
      (convert_legacy data ''estimated_repair_cost'' \<in> {None, Some JNull, Some JOther} \<or>
       (\<exists>s. convert_legacy data ''estimated_repair_cost'' = Some (JString s) \<and>
            float_of_str e s = None) \<longrightarrow>
         (\<exists>es r. parse_claim e p = Inl (ValueError p (ValidationError es)) \<and>
            (''estimated_repair_cost'', r) \<in> set es)) \<and>
      (data ''claim_number'' = None \<longrightarrow>
         (\<exists>es. parse_claim e p = Inl (ValueError p (ValidationError es)) \<and>
            (''claim_number'', missing) \<in> set es)))"
proof (intro conjI allI impI)
  show "(\<exists>m. parse_claim e p = Inl (FileNotFoundError m)) \<longleftrightarrow> files e p = NoSuchFile"
    by (rule parse_claim_NotFound_iff)
next
  assume "files e p = NoSuchFile"
  then show "parse_claim e p = Inl (FileNotFoundError p)"
    by (simp add: parse_claim_def)
next
  fix data assume "files e p = Mapping data"
  then show "parse_claim e p =
        (case model_validate e (convert_legacy data) of
           Inl es \<Rightarrow> Inl (ValueError p (ValidationError es))
         | Inr ci \<Rightarrow> Inr ci)"
    by (rule parse_claim_Mapping)
next
  fix data
  show "\<forall>(old, new) \<in> set legacy_aliases.
         convert_legacy data old = None \<and>
         convert_legacy data new = (case data old of Some v \<Rightarrow> Some v | None \<Rightarrow> data new)"
    by (rule convert_legacy_alias)
next
  fix data assume m: "files e p = Mapping data"
  show "\<forall>f \<in> set required_str_fields.
         (\<nexists>s. convert_legacy data f = Some (JString s)) \<longrightarrow>
         (\<exists>es r. parse_claim e p = Inl (ValueError p (ValidationError es)) \<and>
            (f, r) \<in> set es)"
    using str_field_rejected [OF m] by blast
next
  fix data assume m: "files e p = Mapping data"
    and c: "convert_legacy data ''estimated_repair_cost'' \<in> {None, Some JNull, Some JOther} \<or>
       (\<exists>s. convert_legacy data ''estimated_repair_cost'' = Some (JString s) \<and>
            float_of_str e s = None)"
  from c have "\<nexists>x. validate_float e ''estimated_repair_cost'' (convert_legacy data) = Inr x"
    by (auto simp: validate_float_Inr_iff)
  from cost_rejected [OF m this]
  show "\<exists>es r. parse_claim e p = Inl (ValueError p (ValidationError es)) \<and>
            (''estimated_repair_cost'', r) \<in> set es" .
next
  fix data assume m: "files e p = Mapping data" and n: "data ''claim_number'' = None"
  have "(''claim_number'', missing) \<in> set (errors_of (model_validate e (convert_legacy data)))"
    using n by (simp add: errors_of_model_validate validate_str_errors convert_legacy_claim_number)
  from parse_claim_error_of_field [OF m this]
  show "\<exists>es. parse_claim e p = Inl (ValueError p (ValidationError es)) \<and>
            (''claim_number'', missing) \<in> set es" .
qed


theorem parse_claim_failures_witness:
  "files test_env ''nowhere.json'' = NoSuchFile \<and>
   parse_claim test_env ''nowhere.json'' = Inl (FileNotFoundError ''nowhere.json'') \<and>
   files test_env ''no_number.json'' = Mapping (legacy_claim(''claim_number'' := None)) \<and>
   (legacy_claim(''claim_number'' := None)) ''claim_number'' = None \<and>
   ''claim_number'' \<in> set required_str_fields \<and>
   (\<exists>es. parse_claim test_env ''no_number.json'' =
           Inl (ValueError ''no_number.json'' (ValidationError es)) \<and>
         (''claim_number'', missing) \<in> set es)"
proof -
  have a: "files test_env ''nowhere.json'' = NoSuchFile"
    by (simp add: test_env_def test_files_def)
  have b: "files test_env ''no_number.json'' = Mapping (legacy_claim(''claim_number'' := None))"
    by (simp add: test_env_def test_files_def)
  have c: "(legacy_claim(''claim_number'' := None)) ''claim_number'' = None"
    by simp
  have d: "''claim_number'' \<in> set required_str_fields"
    by (simp add: required_str_fields_def)
  from parse_claim_failures [of test_env "''nowhere.json''"] a
  have "parse_claim test_env ''nowhere.json'' = Inl (FileNotFoundError ''nowhere.json'')"
    by blast
  moreover from parse_claim_failures [of test_env "''no_number.json''"] b c
  have "\<exists>es. parse_claim test_env ''no_number.json'' =
           Inl (ValueError ''no_number.json'' (ValidationError es)) \<and>
         (''claim_number'', missing) \<in> set es"
    by blast
  ultimately show ?thesis
    using a b c d by blast
qed

text \<open>
  Claim C10. On a mapping, \<open>parse_claim\<close> validates the renamed mapping, and there every
  legacy key that the input holds has passed its value to the new name, whatever stood
  there, and is gone; so a record that is returned holds the legacy values.
\<close>

theorem legacy_alias_takes_precedence:
  assumes "files e p = Mapping data"
  shows "parse_claim e p =
           (case model_validate e (convert_legacy data) of
              Inl es \<Rightarrow> Inl (ValueError p (ValidationError es))
            | Inr ci \<Rightarrow> Inr ci) \<and>
         (\<forall>(old, new) \<in> set legacy_aliases. \<forall>v.
            data old = Some v \<longrightarrow>
            convert_legacy data new = Some v \<and> convert_legacy data old = None) \<and>
         (\<forall>ci. parse_claim e p = Inr ci \<longrightarrow>
            (\<forall>x. data ''damage_amount'' = Some (JNumber x) \<longrightarrow> estimated_repair_cost ci = x) \<and>
            (\<forall>v. data ''policyholder_name'' = Some v \<longrightarrow> v = JString (claimant_name ci)) \<and>
            (\<forall>v. data ''date_of_incident'' = Some v \<longrightarrow> v = JString (date_of_loss ci)) \<and>
            (\<forall>v. data ''description'' = Some v \<longrightarrow> v = JString (loss_description ci)))"
proof (intro conjI allI impI)
  show "parse_claim e p =
           (case model_validate e (convert_legacy data) of
              Inl es \<Rightarrow> Inl (ValueError p (ValidationError es))
            | Inr ci \<Rightarrow> Inr ci)"
    using assms by (rule parse_claim_Mapping)
next
  show "\<forall>(old, new) \<in> set legacy_aliases. \<forall>v.
            data old = Some v \<longrightarrow>
            convert_legacy data new = Some v \<and> convert_legacy data old = None"
    by (simp add: legacy_aliases_def convert_legacy_aliases)
next
  fix ci x
  assume "parse_claim e p = Inr ci" and "data ''damage_amount'' = Some (JNumber x)"
  then show "estimated_repair_cost ci = x"
    using assms
    by (simp add: parse_claim_Mapping split: sum.splits)
      (simp add: model_validate_Inr_iff validate_float_Inr_iff convert_legacy_damage_amount)
next
  fix ci v
  assume "parse_claim e p = Inr ci" and "data ''policyholder_name'' = Some v"
  then show "v = JString (claimant_name ci)"
    using assms
    by (simp add: parse_claim_Mapping split: sum.splits)
      (simp add: model_validate_Inr_iff validate_str_Inr_iff convert_legacy_policyholder_name)
next
  fix ci v
  assume "parse_claim e p = Inr ci" and "data ''date_of_incident'' = Some v"
  then show "v = JString (date_of_loss ci)"
    using assms
    by (simp add: parse_claim_Mapping split: sum.splits)
      (simp add: model_validate_Inr_iff validate_str_Inr_iff convert_legacy_date_of_incident)
next
  fix ci v
  assume "parse_claim e p = Inr ci" and "data ''description'' = Some v"
  then show "v = JString (loss_description ci)"
    using assms
    by (simp add: parse_claim_Mapping split: sum.splits)
      (simp add: model_validate_Inr_iff validate_str_Inr_iff convert_legacy_description)
qed

theorem legacy_alias_takes_precedence_witness:
  "files test_env ''legacy.json'' = Mapping legacy_claim \<and>
   (''damage_amount'', ''estimated_repair_cost'') \<in> set legacy_aliases \<and>
   legacy_claim ''damage_amount'' = Some (JNumber 700) \<and>
   legacy_claim ''estimated_repair_cost'' = Some (JNumber 100) \<and>
   convert_legacy legacy_claim ''estimated_repair_cost'' = Some (JNumber 700) \<and>
   convert_legacy legacy_claim ''damage_amount'' = None \<and>
   parse_claim test_env ''legacy.json'' = Inr legacy_info \<and>
   estimated_repair_cost legacy_info = 700"
proof -
  have a: "files test_env ''legacy.json'' = Mapping legacy_claim"
    by (simp add: test_env_def test_files_def)
  have b: "(''damage_amount'', ''estimated_repair_cost'') \<in> set legacy_aliases"
    by (simp add: legacy_aliases_def)
  have c: "legacy_claim ''damage_amount'' = Some (JNumber 700)"
    by (simp add: legacy_claim_def)
  have d: "legacy_claim ''estimated_repair_cost'' = Some (JNumber 100)"
    by (simp add: legacy_claim_def)
  note t = legacy_alias_takes_precedence [OF a]
  from t b c have "convert_legacy legacy_claim ''estimated_repair_cost'' = Some (JNumber 700) \<and>
      convert_legacy legacy_claim ''damage_amount'' = None"
    by blast
  moreover from t c parse_legacy have "estimated_repair_cost legacy_info = 700"
    by blast
  ultimately show ?thesis
    using a b c d parse_legacy by blast
qed


subsection \<open>Runs and failing capabilities\<close>



















subsection \<open>Retrieval\<close>

lemma store_docs_append:
  "store_docs (xs @ ys) cd = store_docs ys (store_docs xs cd)"
  by (induction xs arbitrary: cd) simp_all

lemma store_docs_Nil_iff:
  "store_docs ds cd = [] \<longleftrightarrow> ds = [] \<and> cd = []"
  by (induction ds arbitrary: cd) simp_all

lemma distinct_store_docs:
  "distinct (map fst cd) \<Longrightarrow> distinct (map fst (store_docs ds cd))"
  by (induction ds arbitrary: cd) (simp_all add: distinct_update)

lemma keys_store_docs:
  "map fst (store_docs ds cd) =
     map fst cd @ first_seen (filter (\<lambda>k. k \<notin> set (map fst cd)) (map doc_id ds))"
proof (induction ds arbitrary: cd)
  case Nil
  then show ?case by simp
next
  case (Cons d ds)
  show ?case
  proof (cases "doc_id d \<in> set (map fst cd)")
    case True
    then show ?thesis
      by (simp add: Cons.IH update_keys)
  next
    case False
    have "filter (\<lambda>k. k \<noteq> doc_id d \<and> k \<notin> fst ` set cd) (map doc_id ds) =
          filter (\<lambda>k. k \<notin> fst ` set cd \<and> k \<noteq> doc_id d) (map doc_id ds)"
      by (rule filter_cong) auto
    with False show ?thesis
      by (simp add: Cons.IH update_keys)
  qed
qed

lemma find_snoc:
  "find P (xs @ [x]) =
     (case find P xs of Some y \<Rightarrow> Some y | None \<Rightarrow> if P x then Some x else None)"
  by (induction xs) simp_all

lemma map_of_store_docs:
  "map_of (store_docs ds cd) k =
     (case find (\<lambda>d. doc_id d = k) (rev ds) of Some d \<Rightarrow> Some d | None \<Rightarrow> map_of cd k)"
proof (induction ds arbitrary: cd)
  case Nil
  then show ?case by simp
next
  case (Cons d ds)
  show ?case
    by (simp add: Cons.IH update_conv' find_snoc split: option.splits)
qed

lemma fetch_all_success:
  assumes "\<forall>q \<in> set qs. fetch r q = Inr (res q)"
  shows "fst (fetch_all w r qs cd ctx) = store_docs (concat (map res qs)) cd \<and>
         snd (snd (fetch_all w r qs cd ctx)) = None"
  using assms
  by (induction qs arbitrary: cd ctx) (simp_all add: Let_def store_docs_append)

lemma retrieve_policy_text_absent:
  assumes "ctx_claim_info ctx = Some ci" and "policy_retriever w = None"
  shows "map_sum id snd (retrieve_policy_text w ctx qs) = Inr (get_fallback_policy_text ci)"
  using assms by (simp add: retrieve_policy_text_def get_claim_info_def Let_def)

lemma retrieve_policy_text_first_call_raises:
  assumes "ctx_claim_info ctx = Some ci" and "policy_retriever w = Some r"
    and "queries qs = q # rest" and "fetch r q = Inl x"
  shows "map_sum id snd (retrieve_policy_text w ctx qs) = Inr (get_fallback_policy_text ci)"
  using assms by (simp add: retrieve_policy_text_def get_claim_info_def Let_def)

lemma retrieve_policy_text_success:
  assumes "ctx_claim_info ctx = Some ci" and "policy_retriever w = Some r"
    and "\<forall>q \<in> set (queries qs). fetch r q = Inr (res q)"
  shows "map_sum id snd (retrieve_policy_text w ctx qs) =
     Inr (if concat (map res (queries qs)) @ get_declarations_docs r (policy_number ci) 1 = []
          then get_fallback_policy_text ci
          else join [CHR 0x0A, CHR 0x0A]
                 (map (get_content \<circ> snd)
                    (store_docs
                       (concat (map res (queries qs)) @
                        get_declarations_docs r (policy_number ci) 1) [])))"
proof -
  let ?c = "write_event w Retrieving_policy_sections ctx"
  obtain cd c x where f: "fetch_all w r (queries qs) [] ?c = (cd, c, x)"
    by (cases "fetch_all w r (queries qs) [] ?c") auto
  from fetch_all_success [OF assms(3), of w "[]" ?c] f
  have cd: "cd = store_docs (concat (map res (queries qs))) []" and x: "x = None"
    by simp_all
  show ?thesis
    using assms(1,2) f
    by (simp add: retrieve_policy_text_def get_claim_info_def Let_def cd x
        store_docs_append store_docs_Nil_iff)
qed

lemma fallback_policy_text_policy_number:
  "policy_number ci' = policy_number ci \<Longrightarrow>
     get_fallback_policy_text ci' = get_fallback_policy_text ci"
  by (simp add: get_fallback_policy_text_def)

text \<open>
  Claim C7, as stated, fails: the answers a1, b to one query and a2 to the next, a1 and a2
  under one identifier, are merged to the text of a2, then the text of b; the last-seen
  entries in retrieval order are b, then a2.
\<close>

theorem retrieve_policy_text_order_counterexample:
  "map_sum id snd
     (retrieve_policy_text retrieving_workflow (loaded_context (scenario_info 5000)) two_queries) =
     Inr (''A2'' @ [CHR 0x0A, CHR 0x0A] @ ''B'') \<and>
   join [CHR 0x0A, CHR 0x0A] (map get_content (last_seen_merge [doc_a1, doc_b, doc_a2])) =
     ''B'' @ [CHR 0x0A, CHR 0x0A] @ ''A2''"
  by (simp add: retrieve_policy_text_def retrieving_workflow_def loaded_context_def
      get_claim_info_def write_event_def two_queries_def two_answer_retriever_def fetch_def
      two_answers_def get_declarations_docs_def doc_a1_def doc_b_def doc_a2_def Let_def)

text \<open>
  Claim C7, amended. In a context that holds the claim: without a retriever the policy
  text is the built-in template; so it is when the first call of the retriever raises.
  When every query is answered, the answers in query order, followed by at most one
  declarations document, are merged by identifier: the merged list has each identifier
  once, at the place of its first retrieval, with the last document retrieved under it;
  the policy text is the texts of the merged list joined by two newlines, and the
  template when nothing was retrieved. The template depends on the claim through its
  policy number only.
\<close>

theorem retrieve_policy_text_merge:
  assumes "ctx_claim_info ctx = Some ci"
  shows "(policy_retriever w = None \<longrightarrow>
            map_sum id snd (retrieve_policy_text w ctx qs) = Inr (get_fallback_policy_text ci)) \<and>
         (\<forall>r q rest x. policy_retriever w = Some r \<and> queries qs = q # rest \<and> fetch r q = Inl x \<longrightarrow>
            map_sum id snd (retrieve_policy_text w ctx qs) = Inr (get_fallback_policy_text ci)) \<and>
         (\<forall>r res. policy_retriever w = Some r \<and> (\<forall>q \<in> set (queries qs). fetch r q = Inr (res q)) \<longrightarrow>
            (let docs = concat (map res (queries qs)) @
                        get_declarations_docs r (policy_number ci) 1;
                 merged = store_docs docs []
             in map_sum id snd (retrieve_policy_text w ctx qs) =
                  Inr (if docs = [] then get_fallback_policy_text ci
                       else join [CHR 0x0A, CHR 0x0A] (map (get_content \<circ> snd) merged)) \<and>
                length (get_declarations_docs r (policy_number ci) 1) \<le> 1 \<and>
                distinct (map fst merged) \<and>
                map fst merged = first_seen (map doc_id docs) \<and>
                (\<forall>k. map_of merged k = find (\<lambda>d. doc_id d = k) (rev docs)))) \<and>
         (\<forall>ci' :: ClaimInfo. policy_number ci' = policy_number ci \<longrightarrow>
            get_fallback_policy_text ci' = get_fallback_policy_text ci)"
proof (intro conjI allI impI)
  assume "policy_retriever w = None"
  with assms show "map_sum id snd (retrieve_policy_text w ctx qs) = Inr (get_fallback_policy_text ci)"
    by (rule retrieve_policy_text_absent)
next
  fix r q rest x
  assume "policy_retriever w = Some r \<and> queries qs = q # rest \<and> fetch r q = Inl x"
  with assms show "map_sum id snd (retrieve_policy_text w ctx qs) = Inr (get_fallback_policy_text ci)"
    by (blast intro: retrieve_policy_text_first_call_raises)
next
  fix r res
  assume a: "policy_retriever w = Some r \<and> (\<forall>q \<in> set (queries qs). fetch r q = Inr (res q))"
  have d: "length (get_declarations_docs r (policy_number ci) 1) \<le> 1"
    by (simp add: get_declarations_docs_def split: option.splits sum.splits)
  from a have s: "map_sum id snd (retrieve_policy_text w ctx qs) =
     Inr (if concat (map res (queries qs)) @ get_declarations_docs r (policy_number ci) 1 = []
          then get_fallback_policy_text ci
          else join [CHR 0x0A, CHR 0x0A]
                 (map (get_content \<circ> snd)
                    (store_docs
                       (concat (map res (queries qs)) @
                        get_declarations_docs r (policy_number ci) 1) [])))"
    using retrieve_policy_text_success [OF assms, of w r qs res] by blast
  show "let docs = concat (map res (queries qs)) @
                        get_declarations_docs r (policy_number ci) 1;
                 merged = store_docs docs []
             in map_sum id snd (retrieve_policy_text w ctx qs) =
                  Inr (if docs = [] then get_fallback_policy_text ci
                       else join [CHR 0x0A, CHR 0x0A] (map (get_content \<circ> snd) merged)) \<and>
                length (get_declarations_docs r (policy_number ci) 1) \<le> 1 \<and>
                distinct (map fst merged) \<and>
                map fst merged = first_seen (map doc_id docs) \<and>
                (\<forall>k. map_of merged k = find (\<lambda>d. doc_id d = k) (rev docs))"
    unfolding Let_def
  proof (intro conjI allI)
    show "map_sum id snd (retrieve_policy_text w ctx qs) =
       Inr (if concat (map res (queries qs)) @ get_declarations_docs r (policy_number ci) 1 = []
            then get_fallback_policy_text ci
            else join [CHR 0x0A, CHR 0x0A]
                   (map (get_content \<circ> snd)
                      (store_docs
                         (concat (map res (queries qs)) @
                          get_declarations_docs r (policy_number ci) 1) [])))"
      by (rule s)
  next
    show "length (get_declarations_docs r (policy_number ci) 1) \<le> 1"
      by (rule d)
  next
    show "distinct (map fst (store_docs
             (concat (map res (queries qs)) @ get_declarations_docs r (policy_number ci) 1) []))"
      by (rule distinct_store_docs) simp
  next
    show "map fst (store_docs
             (concat (map res (queries qs)) @ get_declarations_docs r (policy_number ci) 1) []) =
          first_seen (map doc_id
             (concat (map res (queries qs)) @ get_declarations_docs r (policy_number ci) 1))"
      by (simp add: keys_store_docs)
  next
    fix k
    show "map_of (store_docs
             (concat (map res (queries qs)) @ get_declarations_docs r (policy_number ci) 1) []) k =
          find (\<lambda>d. doc_id d = k)
            (rev (concat (map res (queries qs)) @ get_declarations_docs r (policy_number ci) 1))"
      by (simp add: map_of_store_docs split: option.splits)
  qed
next
  fix ci' :: ClaimInfo
  assume "policy_number ci' = policy_number ci"
  then show "get_fallback_policy_text ci' = get_fallback_policy_text ci"
    by (rule fallback_policy_text_policy_number)
qed

theorem retrieve_policy_text_merge_witness:
  "ctx_claim_info (loaded_context (scenario_info 5000)) = Some (scenario_info 5000) \<and>
   policy_retriever retrieving_workflow = Some two_answer_retriever \<and>
   fetch two_answer_retriever ''q1'' = Inr (two_answers ''q1'') \<and>
   fetch two_answer_retriever ''q2'' = Inr (two_answers ''q2'') \<and>
   map fst (store_docs [doc_a1, doc_b, doc_a2] []) = [''a'', ''b''] \<and>
   map_of (store_docs [doc_a1, doc_b, doc_a2] []) ''a'' = Some doc_a2 \<and>
   map_sum id snd
     (retrieve_policy_text retrieving_workflow (loaded_context (scenario_info 5000)) two_queries) =
     Inr (''A2'' @ [CHR 0x0A, CHR 0x0A] @ ''B'') \<and>
   map_sum id snd
     (retrieve_policy_text (no_capabilities False) (loaded_context (scenario_info 5000)) two_queries) =
     Inr (get_fallback_policy_text (scenario_info 5000))"
proof -
  have a: "ctx_claim_info (loaded_context (scenario_info 5000)) = Some (scenario_info 5000)"
    by (rule ctx_claim_info_loaded_context)
  have b: "policy_retriever retrieving_workflow = Some two_answer_retriever"
    by (simp add: retrieving_workflow_def)
  have c: "\<forall>q \<in> set (queries two_queries). fetch two_answer_retriever q = Inr (two_answers q)"
    by (simp add: two_queries_def fetch_def two_answer_retriever_def)
  have e: "concat (map two_answers (queries two_queries)) @
             get_declarations_docs two_answer_retriever (policy_number (scenario_info 5000)) 1 =
           [doc_a1, doc_b, doc_a2]"
    by (simp add: two_queries_def two_answers_def get_declarations_docs_def
        two_answer_retriever_def)
  have n: "policy_retriever (no_capabilities False) = None"
    by (simp add: no_capabilities_def)
  note t = retrieve_policy_text_merge [OF a, of retrieving_workflow two_queries]
  from t b c have
    "let docs = concat (map two_answers (queries two_queries)) @
                get_declarations_docs two_answer_retriever (policy_number (scenario_info 5000)) 1;
         merged = store_docs docs []
     in map_sum id snd
          (retrieve_policy_text retrieving_workflow (loaded_context (scenario_info 5000))
             two_queries) =
          Inr (if docs = [] then get_fallback_policy_text (scenario_info 5000)
               else join [CHR 0x0A, CHR 0x0A] (map (get_content \<circ> snd) merged)) \<and>
        length (get_declarations_docs two_answer_retriever
                  (policy_number (scenario_info 5000)) 1) \<le> 1 \<and>
        distinct (map fst merged) \<and>
        map fst merged = first_seen (map doc_id docs) \<and>
        (\<forall>k. map_of merged k = find (\<lambda>d. doc_id d = k) (rev docs))"
    by blast
  then have m: "map_sum id snd
          (retrieve_policy_text retrieving_workflow (loaded_context (scenario_info 5000))
             two_queries) =
          Inr (join [CHR 0x0A, CHR 0x0A]
                 (map (get_content \<circ> snd) (store_docs [doc_a1, doc_b, doc_a2] [])))"
    and k: "map fst (store_docs [doc_a1, doc_b, doc_a2] []) =
              first_seen (map doc_id [doc_a1, doc_b, doc_a2])"
    and l: "map_of (store_docs [doc_a1, doc_b, doc_a2] []) ''a'' =
              find (\<lambda>d. doc_id d = ''a'') (rev [doc_a1, doc_b, doc_a2])"
    unfolding Let_def e by simp_all
  from retrieve_policy_text_merge [OF a, of "no_capabilities False" two_queries] n
  have f: "map_sum id snd
     (retrieve_policy_text (no_capabilities False) (loaded_context (scenario_info 5000)) two_queries) =
     Inr (get_fallback_policy_text (scenario_info 5000))"
    by blast
  have q: "fetch two_answer_retriever ''q1'' = Inr (two_answers ''q1'') \<and>
           fetch two_answer_retriever ''q2'' = Inr (two_answers ''q2'')"
    using c by (simp add: two_queries_def)
  show ?thesis
    using a b q f m k l
    by (simp add: doc_a1_def doc_b_def doc_a2_def)
qed

end
